theory Spec2Isabelle
  imports Main "HOL-Library.Sublist"
begin

section \<open>Replication of container images between registries\<close>

text \<open>
  A shallow embedding of \<^verbatim>\<open>cloud/sw_deployment/docker_management.py\<close>: the class
  \<^verbatim>\<open>DockerManagement\<close>, its constructor and its methods \<^verbatim>\<open>copy_images\<close>,
  \<^verbatim>\<open>initialize_ecr\<close>, \<^verbatim>\<open>initialize_acr\<close>, \<^verbatim>\<open>pull_image\<close>, \<^verbatim>\<open>tag_image\<close> and
  \<^verbatim>\<open>push_image\<close>.

  The object \<^verbatim>\<open>self\<close> is a record that every method receives and, where it assigns a
  field, returns updated. Every call that leaves the program (the container runtime, the
  AWS and Azure clients, the terminal) is appended to a history of events, and what such a
  call answers is read from an environment, as a function of the history before the call.
  A Python exception is a value of \<open>py_error\<close>; a method returns the history together
  with either the exception it raised or its result.

  Strings are lists of bytes (UTF-8). The patterns the code searches for are ASCII, and an
  ASCII byte never occurs inside a multi-byte sequence, so replacing on bytes and on code
  points agree.
\<close>

subsection \<open>String operations of the Python library\<close>

text \<open>
  \<^verbatim>\<open>s.replace(old, new)\<close>: every occurrence of \<open>old\<close> is replaced, scanning from the left,
  occurrences never overlapping. With an empty \<open>old\<close>, \<open>new\<close> is put before every
  character and at the end.
\<close>

function replace :: "string \<Rightarrow> string \<Rightarrow> string \<Rightarrow> string" where
  "replace old new [] = (if old = [] then new else [])"
| "replace old new (c # cs) =
     (if old = [] then new @ c # replace old new cs
      else if prefix old (c # cs) then new @ replace old new (drop (length old) (c # cs))
      else c # replace old new cs)"
  by pat_completeness auto
termination
  by (relation "measure (\<lambda>(old, new, s). length s)") auto

text \<open>\<^verbatim>\<open>s.split(sep)\<close> for a separator of one character; the result is never empty.\<close>

fun split :: "char \<Rightarrow> string \<Rightarrow> string list" where
  "split sep [] = [[]]"
| "split sep (c # cs) =
     (if c = sep then [] # split sep cs
      else (case split sep cs of
              w # ws \<Rightarrow> (c # w) # ws
            | [] \<Rightarrow> [[c]]))"

subsection \<open>Exceptions, events and the environment\<close>

datatype py_error =
    ParsingError string
  | DuplicateSectionError string
  | KeyError string
  | IndexError
  | TypeError
  | AttributeError string
  | ExternalError string

text \<open>
  The calls that leave the program, with their arguments. \<open>EchoImages\<close> is the line
  \<^verbatim>\<open>click.echo(f"Images to replicate: {self.images_to_replicate}")\<close>.
\<close>

datatype event =
    Echo string
  | Secho string string
  | EchoImages "string list"
  | DockerLogin "string option" "string option" "string option"
  | ImagesPull string
  | ImagesGet string
  | ImageTag string string string
  | ImagesPush string string "(string \<times> string) option"
  | ConfigRead
  | EcrGetAuthorizationToken "string option" "string option" string
  | SubprocessRun "string list"

type_synonym history = "event list"

text \<open>
  What the libraries answer. An answer \<open>Inl err\<close> (or \<open>Some err\<close> for a call without
  result) is an exception raised by the call. Printing does not raise.
  \<^item> \<open>validators_url\<close> is \<^verbatim>\<open>validators.url\<close>, read as a truth value.
  \<^item> \<open>docker_login\<close>, \<open>images_pull\<close>, \<open>images_get\<close>, \<open>image_tag\<close> and \<open>images_push\<close>
    are the methods of the client of the container runtime. An image is named by its
    identifier, the output of a pull and the log of a push by their printed text.
  \<^item> \<open>config_read\<close> is locating the AWS credentials file and \<^verbatim>\<open>RawConfigParser.read\<close> on
    it, giving the sections with their options.
  \<^item> \<open>ecr_get_authorization_token\<close> is creating the session and the ECR client and taking
    the first entry of \<^verbatim>\<open>authorizationData\<close> in what \<^verbatim>\<open>get_authorization_token\<close> returns.
  \<^item> \<open>b64decode\<close> is \<^verbatim>\<open>base64.b64decode\<close> of the field \<^verbatim>\<open>authorizationToken\<close> of that
    entry, and \<open>utf8_decode\<close> is \<^verbatim>\<open>bytes.decode('utf-8')\<close>.
  \<^item> \<open>subprocess_run\<close> gives the standard output of the command, and
    \<open>json_access_token\<close> is \<^verbatim>\<open>json.loads(...)["accessToken"]\<close>.
\<close>

record env =
  validators_url :: "string \<Rightarrow> bool"
  docker_login :: "history \<Rightarrow> string option \<Rightarrow> string option \<Rightarrow> string option \<Rightarrow> py_error option"
  images_pull :: "history \<Rightarrow> string \<Rightarrow> py_error + string"
  images_get :: "history \<Rightarrow> string \<Rightarrow> py_error + string"
  image_tag :: "history \<Rightarrow> string \<Rightarrow> string \<Rightarrow> string \<Rightarrow> py_error + bool"
  images_push :: "history \<Rightarrow> string \<Rightarrow> string \<Rightarrow> (string \<times> string) option \<Rightarrow> py_error + string"
  config_read :: "history \<Rightarrow> py_error + (string \<times> (string \<times> string) list) list"
  ecr_get_authorization_token ::
    "history \<Rightarrow> string option \<Rightarrow> string option \<Rightarrow> string \<Rightarrow> py_error + string"
  b64decode :: "string \<Rightarrow> py_error + string"
  utf8_decode :: "string \<Rightarrow> py_error + string"
  subprocess_run :: "history \<Rightarrow> string list \<Rightarrow> py_error + string"
  json_access_token :: "string \<Rightarrow> py_error + string"

subsection \<open>The object\<close>

text \<open>The dictionary \<^verbatim>\<open>{'repository': ..., 'tag': ...}\<close> that \<^verbatim>\<open>tag_image\<close> returns.\<close>

record image_ref =
  repository :: string
  tag :: string

text \<open>
  The fields of \<^verbatim>\<open>self\<close>. A field that holds \<^verbatim>\<open>None\<close> is \<open>None\<close>. The constructor
  assigns \<^verbatim>\<open>from_registry\<close> only after the validation, so \<open>from_registry = None\<close>
  stands for an object without that attribute: reading it raises \<open>AttributeError\<close>.
\<close>

record docker_management =
  cloud :: "string option"
  aws_region :: string
  aws_access_key_id :: "string option"
  aws_access_secret_key :: "string option"
  cr_password :: "string option"
  cr_username :: "string option"
  cr_url :: "string option"
  show_log :: bool
  to_registry :: string
  images_to_replicate :: "string list"
  tagged_images :: "image_ref option list"
  from_registry :: "string option"

type_synonym 'a outcome = "history \<times> (py_error + 'a)"

subsection \<open>The registry client: pull, tag, push\<close>

definition pull_image ::
  "env \<Rightarrow> string \<Rightarrow> string \<Rightarrow> string option \<Rightarrow> string option \<Rightarrow> history \<Rightarrow> unit outcome" where
  "pull_image e registry_url image_name username password h =
     (if \<not> (username = None \<and> password = None) then
        (let h1 = h @ [DockerLogin username password (Some registry_url)] in
         case docker_login e h username password (Some registry_url) of
           Some err \<Rightarrow> (h1, Inl err)
         | None \<Rightarrow>
             (let h2 = h1 @ [ImagesPull (registry_url @ ''/'' @ image_name)] in
              case images_pull e h1 (registry_url @ ''/'' @ image_name) of
                Inl err \<Rightarrow> (h2, Inl err)
              | Inr output \<Rightarrow> (h2 @ [Echo output], Inr ())))
      else
        (let h2 = h @ [ImagesPull (registry_url @ ''/'' @ image_name)] in
         case images_pull e h (registry_url @ ''/'' @ image_name) of
           Inl err \<Rightarrow> (h2, Inl err)
         | Inr output \<Rightarrow> (h2 @ [Echo output], Inr ())))"

definition tag_image ::
  "env \<Rightarrow> docker_management \<Rightarrow> string \<Rightarrow> string \<Rightarrow> string \<Rightarrow> history
     \<Rightarrow> image_ref option outcome" where
  "tag_image e self image_name registry_old registry_new h =
     (let h1 = h @ [ImagesGet (registry_old @ ''/'' @ image_name)] in
      case images_get e h (registry_old @ ''/'' @ image_name) of
        Inl err \<Rightarrow> (h1, Inl err)
      | Inr img \<Rightarrow>
          (let (target_image, tg) =
                 (if cloud self = Some ''aws''
                  then (registry_new, replace '':'' ''-'' (replace ''/'' ''-'' image_name))
                  else (registry_new @ ''/'' @ image_name, ''latest''));
               h2 = h1 @ [ImageTag img target_image tg] in
           case image_tag e h1 img target_image tg of
             Inl err \<Rightarrow> (h2, Inl err)
           | Inr result \<Rightarrow>
               (if result then (h2, Inr (Some \<lparr>repository = target_image, tag = tg\<rparr>))
                else (h2, Inr None))))"

text \<open>
  The last statement of \<^verbatim>\<open>push_image\<close>, \<^verbatim>\<open>if auth_config is not None: ...\<close>. The
  statement has no \<^verbatim>\<open>else\<close>.
\<close>

definition push_if_auth_config ::
  "env \<Rightarrow> docker_management \<Rightarrow> string \<Rightarrow> string \<Rightarrow> (string \<times> string) option \<Rightarrow> history
     \<Rightarrow> unit outcome" where
  "push_if_auth_config e self img tg auth_config h =
     (case auth_config of
        None \<Rightarrow> (h, Inr ())
      | Some a \<Rightarrow>
          (let h1 = h @ [ImagesPush img tg (Some a)] in
           case images_push e h img tg (Some a) of
             Inl err \<Rightarrow> (h1, Inl err)
           | Inr push_log \<Rightarrow>
               (if \<not> show_log self then (h1 @ [Echo push_log], Inr ())
                else (h1, Inr ()))))"

definition push_image ::
  "env \<Rightarrow> docker_management \<Rightarrow> string \<Rightarrow> string \<Rightarrow> string option \<Rightarrow> string option
     \<Rightarrow> string option \<Rightarrow> history \<Rightarrow> unit outcome" where
  "push_image e self img tg registry username password h =
     (let h1 = h @ [Echo ''Pushing image:''] in
      case (registry, username, password) of
        (Some r, Some u, Some p) \<Rightarrow>
          (let h2 = h1 @ [DockerLogin (Some u) (Some p) (Some r)] in
           case docker_login e h1 (Some u) (Some p) (Some r) of
             Some err \<Rightarrow> (h2, Inl err)
           | None \<Rightarrow> push_if_auth_config e self img tg (Some (u, p)) h2)
      | _ \<Rightarrow> push_if_auth_config e self img tg None h1)"

subsection \<open>The orchestrator\<close>

text \<open>
  The loop of \<^verbatim>\<open>copy_images\<close> over the images that remain. An exception ends the loop;
  the object keeps what was assigned before. Subscripting \<^verbatim>\<open>None\<close>, which
  \<^verbatim>\<open>new_image['repository']\<close> does when \<^verbatim>\<open>tag_image\<close> returned nothing, raises
  \<open>TypeError\<close>.
\<close>

type_synonym run = "docker_management \<times> history \<times> py_error option"

fun copy_loop :: "env \<Rightarrow> string list \<Rightarrow> docker_management \<Rightarrow> history \<Rightarrow> run" where
  "copy_loop e [] self h = (self, h, None)"
| "copy_loop e (img # imgs) self h =
     (case from_registry self of
        None \<Rightarrow> (self, h, Some (AttributeError ''from_registry''))
      | Some registry_url \<Rightarrow>
          (case pull_image e registry_url img None None h of
             (h1, Inl err) \<Rightarrow> (self, h1, Some err)
           | (h1, Inr _) \<Rightarrow>
               (case tag_image e self img registry_url (to_registry self) h1 of
                  (h2, Inl err) \<Rightarrow> (self, h2, Some err)
                | (h2, Inr new_image) \<Rightarrow>
                    (let self1 = self\<lparr>tagged_images := tagged_images self @ [new_image]\<rparr> in
                     case new_image of
                       None \<Rightarrow> (self1, h2, Some TypeError)
                     | Some ref \<Rightarrow>
                         (case push_image e self1 (repository ref) (tag ref)
                                 (cr_url self1) (cr_username self1) (cr_password self1) h2 of
                            (h3, Inl err) \<Rightarrow> (self1, h3, Some err)
                          | (h3, Inr _) \<Rightarrow> copy_loop e imgs self1 h3)))))"

definition copy_images :: "env \<Rightarrow> docker_management \<Rightarrow> history \<Rightarrow> run" where
  "copy_images e self h = copy_loop e (images_to_replicate self) self h"

subsection \<open>The credential providers\<close>

text \<open>
  The \<^verbatim>\<open>try\<close> block of \<^verbatim>\<open>initialize_ecr\<close>: only \<^verbatim>\<open>configparser.ParsingError\<close> (a
  malformed line, a missing section header) is caught and printed in red. What else reading
  the file raises, such as \<^verbatim>\<open>configparser.DuplicateSectionError\<close>, is not caught, and
  neither is the \<open>KeyError\<close> of a missing section or option.
\<close>

definition read_aws_credentials :: "env \<Rightarrow> docker_management \<Rightarrow> history \<Rightarrow> run" where
  "read_aws_credentials e self h =
     (let h1 = h @ [ConfigRead] in
      case config_read e h of
        Inl (ParsingError parser_error) \<Rightarrow> (self, h1 @ [Secho parser_error ''red''], None)
      | Inl err \<Rightarrow> (self, h1, Some err)
      | Inr config \<Rightarrow>
          (case map_of config ''default'' of
             None \<Rightarrow> (self, h1, Some (KeyError ''default''))
           | Some credentials \<Rightarrow>
               (case map_of credentials ''aws_access_key_id'' of
                  None \<Rightarrow> (self, h1, Some (KeyError ''aws_access_key_id''))
                | Some key_id \<Rightarrow>
                    (let self1 = self\<lparr>aws_access_key_id := Some key_id\<rparr> in
                     case map_of credentials ''aws_secret_access_key'' of
                       None \<Rightarrow> (self1, h1, Some (KeyError ''aws_secret_access_key''))
                     | Some secret \<Rightarrow>
                         (self1\<lparr>aws_access_secret_key := Some secret\<rparr>, h1, None)))))"

definition initialize_ecr :: "env \<Rightarrow> docker_management \<Rightarrow> history \<Rightarrow> run" where
  "initialize_ecr e self h =
     (case read_aws_credentials e self h of
        (self1, h1, Some err) \<Rightarrow> (self1, h1, Some err)
      | (self1, h1, None) \<Rightarrow>
          (let h2 = h1 @ [EcrGetAuthorizationToken (aws_access_key_id self1)
                            (aws_access_secret_key self1) (aws_region self1)] in
           case ecr_get_authorization_token e h1 (aws_access_key_id self1)
                  (aws_access_secret_key self1) (aws_region self1) of
             Inl err \<Rightarrow> (self1, h2, Some err)
           | Inr ecr_credentials \<Rightarrow>
               (let self2 = self1\<lparr>cr_username := Some ''AWS''\<rparr> in
                case b64decode e ecr_credentials of
                  Inl err \<Rightarrow> (self2, h2, Some err)
                | Inr decoded \<Rightarrow>
                    (case utf8_decode e (replace ''AWS:'' [] decoded) of
                       Inl err \<Rightarrow> (self2, h2, Some err)
                     | Inr password \<Rightarrow>
                         (self2\<lparr>cr_password := Some password,
                                 cr_url := Some (to_registry self2)\<rparr>, h2, None)))))"

definition initialize_acr :: "env \<Rightarrow> docker_management \<Rightarrow> history \<Rightarrow> run" where
  "initialize_acr e self h =
     (case split (CHR ''.'') (to_registry self) of
        [] \<Rightarrow> (self, h, Some IndexError)
      | acr_name # _ \<Rightarrow>
          (let command = ''az acr login --name '' @ acr_name @ '' --expose-token'';
               h1 = h @ [SubprocessRun (split (CHR '' '') command)] in
           case subprocess_run e h (split (CHR '' '') command) of
             Inl err \<Rightarrow> (self, h1, Some err)
           | Inr stdout \<Rightarrow>
               (case json_access_token e stdout of
                  Inl err \<Rightarrow> (self, h1, Some err)
                | Inr access_token \<Rightarrow>
                    (self\<lparr>cr_password := Some access_token,
                          cr_username := Some ''00000000-0000-0000-0000-000000000000'',
                          cr_url := Some (to_registry self)\<rparr>, h1, None))))"

subsection \<open>The constructor\<close>

text \<open>
  \<^verbatim>\<open>__init__\<close>. Its first statement creates the client of the container runtime
  (\<^verbatim>\<open>docker.from_env()\<close>); the environment stands for that client, so the model begins
  once the client exists. The parameter \<^verbatim>\<open>show_log\<close> is \<open>show\<close> here. When the
  constructor raises, the object returned is the object as the exception left it.
\<close>

definition init ::
  "env \<Rightarrow> string \<Rightarrow> string \<Rightarrow> string list \<Rightarrow> string \<Rightarrow> string option \<Rightarrow> bool \<Rightarrow> history
     \<Rightarrow> run" where
  "init e from_reg to_reg images region cloud_kind show h =
     (let self = \<lparr>cloud = cloud_kind, aws_region = region, aws_access_key_id = None,
                  aws_access_secret_key = None, cr_password = None, cr_username = None,
                  cr_url = None, show_log = show, to_registry = to_reg,
                  images_to_replicate = images, tagged_images = [],
                  from_registry = None\<rparr> in
      if \<not> validators_url e from_reg then
        (self, h @ [Secho ''The source registry does not have a valid URL!'' ''red''], None)
      else
        (let self1 = self\<lparr>from_registry := Some (replace ''https://'' [] from_reg),
                          images_to_replicate := images\<rparr>;
             h1 = h @ [EchoImages (images_to_replicate self1)] in
         if cloud self1 = Some ''aws'' then initialize_ecr e self1 h1
         else if cloud self1 = Some ''azure'' then initialize_acr e self1 h1
         else (self1, h1, None)))"

subsection \<open>Notions of the specification\<close>

text \<open>
  ``Every slash and colon replaced by a hyphen'', character by character.
\<close>

definition hyphenate :: "char \<Rightarrow> char" where
  "hyphenate c = (if c = CHR ''/'' \<or> c = CHR '':'' then CHR ''-'' else c)"

text \<open>
  ``The leading \<^verbatim>\<open>https://\<close> prefix stripped and no other transformation applied.''
\<close>

definition strip_https_prefix :: "string \<Rightarrow> string" where
  "strip_https_prefix url = (if prefix ''https://'' url then drop (length ''https://'') url else url)"




subsection \<open>A sample environment\<close>

text \<open>
  An environment in which every call succeeds, and an object as the constructor leaves it
  once credentials are known. The examples below run the program in them.
  \<open>validators_url\<close> here is a stand-in that looks at the scheme only; the addresses of
  the examples are well-formed URLs, which the library accepts as well.
\<close>

definition sample_env :: env where
  "sample_env =
     \<lparr>validators_url = (\<lambda>u. prefix ''https://'' u \<or> prefix ''http://'' u),
      docker_login = (\<lambda>h u p r. None),
      images_pull = (\<lambda>h ref. Inr ref),
      images_get = (\<lambda>h ref. Inr ref),
      image_tag = (\<lambda>h img target tg. Inr True),
      images_push = (\<lambda>h img tg auth. Inr ''pushed''),
      config_read = (\<lambda>h. Inr [(''default'', [(''aws_access_key_id'', ''AKIDEXAMPLE''),
                                               (''aws_secret_access_key'', ''SECRET'')])]),
      ecr_get_authorization_token = (\<lambda>h k s r. Inr ''QVdTOnRva2Vu''),
      b64decode = (\<lambda>s. if s = ''QVdTOnRva2Vu'' then Inr ''AWS:token''
                        else Inl (ExternalError ''binascii.Error'')),
      utf8_decode = Inr,
      subprocess_run = (\<lambda>h args. Inr ''stdout''),
      json_access_token = (\<lambda>s. Inr ''acr-token'')\<rparr>"

definition sample_self :: "string option \<Rightarrow> docker_management" where
  "sample_self cloud_kind =
     \<lparr>cloud = cloud_kind, aws_region = ''eu-west-1'', aws_access_key_id = None,
      aws_access_secret_key = None, cr_password = Some ''token'', cr_username = Some ''AWS'',
      cr_url = Some ''myregistry.io'', show_log = False, to_registry = ''myregistry.io'',
      images_to_replicate = [''app/service:v1'', ''db:2''], tagged_images = [],
      from_registry = Some ''registry.example.com''\<rparr>"

text \<open>The same environment, except that tagging fails for the tag \<^verbatim>\<open>db-2\<close>.\<close>

definition second_tag_fails_env :: env where
  "second_tag_fails_env = sample_env\<lparr>image_tag := \<lambda>h img target tg. Inr (tg \<noteq> ''db-2'')\<rparr>"

section \<open>Properties\<close>

subsection \<open>Replacing in strings\<close>

lemma replace_char: "replace [a] [b] s = map (\<lambda>c. if c = a then b else c) s"
  by (induction s) auto

lemma replace_absent: "old \<noteq> [] \<Longrightarrow> \<not> sublist old s \<Longrightarrow> replace old new s = s"
proof (induction s)
  case Nil
  then show ?case by simp
next
  case (Cons c cs)
  from Cons.prems have "\<not> prefix old (c # cs)"
    by (auto dest: prefix_imp_sublist)
  moreover from Cons.prems have "\<not> sublist old cs"
    by (auto simp: sublist_Cons_right)
  ultimately show ?case
    using Cons by simp
qed

lemma replace_prefix: "old \<noteq> [] \<Longrightarrow> replace old new (old @ rest) = new @ replace old new rest"
  by (cases old) auto

lemma replace_slash_colon:
  "replace '':'' ''-'' (replace ''/'' ''-'' s) = map hyphenate s"
  by (simp add: replace_char hyphenate_def)

subsection \<open>Tag derivation\<close>

text \<open>
  C4. When the cloud kind is \<^verbatim>\<open>aws\<close> and the pulled image is found, \<^verbatim>\<open>tag_image\<close>
  applies to it the destination registry, unchanged, as repository and the image name with
  every slash and colon replaced by a hyphen as tag, and returns that pair when the
  runtime reports success. For \<^verbatim>\<open>app/service:v1\<close> the tag is \<^verbatim>\<open>app-service-v1\<close>.
\<close>

theorem tag_image_aws:
  assumes "cloud self = Some ''aws''"
    and "images_get e h (registry_old @ ''/'' @ image_name) = Inr img"
  shows "tag_image e self image_name registry_old registry_new h =
           (h @ [ImagesGet (registry_old @ ''/'' @ image_name),
                 ImageTag img registry_new (map hyphenate image_name)],
            case image_tag e (h @ [ImagesGet (registry_old @ ''/'' @ image_name)]) img
                   registry_new (map hyphenate image_name) of
              Inl err \<Rightarrow> Inl err
            | Inr result \<Rightarrow>
                Inr (if result
                     then Some \<lparr>repository = registry_new, tag = map hyphenate image_name\<rparr>
                     else None))"
  using assms
  by (simp add: tag_image_def replace_slash_colon split: sum.splits)

theorem tag_image_aws_witness:
  "cloud (sample_self (Some ''aws'')) = Some ''aws'' \<and>
   images_get sample_env [] (''registry.example.com'' @ ''/'' @ ''app/service:v1'')
     = Inr ''registry.example.com/app/service:v1'' \<and>
   tag_image sample_env (sample_self (Some ''aws'')) ''app/service:v1''
       ''registry.example.com'' ''123.dkr.ecr.eu-west-1.amazonaws.com/repo'' [] =
     ([ImagesGet ''registry.example.com/app/service:v1'',
       ImageTag ''registry.example.com/app/service:v1''
         ''123.dkr.ecr.eu-west-1.amazonaws.com/repo'' ''app-service-v1''],
      Inr (Some \<lparr>repository = ''123.dkr.ecr.eu-west-1.amazonaws.com/repo'',
                  tag = ''app-service-v1''\<rparr>))"
  using tag_image_aws [of "sample_self (Some ''aws'')" sample_env "[]" "''registry.example.com''"
      "''app/service:v1''" "''registry.example.com/app/service:v1''"
      "''123.dkr.ecr.eu-west-1.amazonaws.com/repo''"]
  by (simp add: sample_env_def sample_self_def hyphenate_def)

text \<open>
  C5. When the cloud kind is anything but \<^verbatim>\<open>aws\<close> and the pulled image is found,
  \<^verbatim>\<open>tag_image\<close> applies to it the repository \<^verbatim>\<open>destination/image-name\<close> and the tag
  \<^verbatim>\<open>latest\<close>, and returns that pair when the runtime reports success. For
  \<^verbatim>\<open>app/service:v1\<close> and \<^verbatim>\<open>myregistry.io\<close> the repository is
  \<^verbatim>\<open>myregistry.io/app/service:v1\<close>.
\<close>

theorem tag_image_generic:
  assumes "cloud self \<noteq> Some ''aws''"
    and "images_get e h (registry_old @ ''/'' @ image_name) = Inr img"
  shows "tag_image e self image_name registry_old registry_new h =
           (h @ [ImagesGet (registry_old @ ''/'' @ image_name),
                 ImageTag img (registry_new @ ''/'' @ image_name) ''latest''],
            case image_tag e (h @ [ImagesGet (registry_old @ ''/'' @ image_name)]) img
                   (registry_new @ ''/'' @ image_name) ''latest'' of
              Inl err \<Rightarrow> Inl err
            | Inr result \<Rightarrow>
                Inr (if result
                     then Some \<lparr>repository = registry_new @ ''/'' @ image_name,
                                 tag = ''latest''\<rparr>
                     else None))"
  using assms
  by (simp add: tag_image_def split: sum.splits)

theorem tag_image_generic_witness:
  "cloud (sample_self None) \<noteq> Some ''aws'' \<and>
   images_get sample_env [] (''registry.example.com'' @ ''/'' @ ''app/service:v1'')
     = Inr ''registry.example.com/app/service:v1'' \<and>
   tag_image sample_env (sample_self None) ''app/service:v1''
       ''registry.example.com'' ''myregistry.io'' [] =
     ([ImagesGet ''registry.example.com/app/service:v1'',
       ImageTag ''registry.example.com/app/service:v1''
         ''myregistry.io/app/service:v1'' ''latest''],
      Inr (Some \<lparr>repository = ''myregistry.io/app/service:v1'', tag = ''latest''\<rparr>))"
  using tag_image_generic [of "sample_self None" sample_env "[]" "''registry.example.com''"
      "''app/service:v1''" "''registry.example.com/app/service:v1''" "''myregistry.io''"]
  by (simp add: sample_env_def sample_self_def)

subsection \<open>The orchestrator's loop\<close>

text \<open>
  C9. With an empty image list \<^verbatim>\<open>copy_images\<close> makes no call at all (the history is
  unchanged), leaves the object as it was and raises nothing.
\<close>

theorem copy_images_empty:
  assumes "images_to_replicate self = []"
  shows "copy_images e self h = (self, h, None)"
  using assms by (simp add: copy_images_def)

theorem copy_images_empty_witness:
  "images_to_replicate (sample_self None\<lparr>images_to_replicate := []\<rparr>) = [] \<and>
   copy_images sample_env (sample_self None\<lparr>images_to_replicate := []\<rparr>) [] =
     (sample_self None\<lparr>images_to_replicate := []\<rparr>, [], None)"
  using copy_images_empty [of "sample_self None\<lparr>images_to_replicate := []\<rparr>" sample_env "[]"]
  by simp

subsection \<open>Pull\<close>

text \<open>
  C10. \<^verbatim>\<open>pull_image\<close> logs in to the registry exactly when the user name and the password
  are not both \<^verbatim>\<open>None\<close>, so also when only one of them is given, and then fetches
  \<^verbatim>\<open>registry/image\<close>; the only events after the fetch print its output. The login is an
  external call: the fetch follows it when it returns, which is the hypothesis.
\<close>

theorem pull_image_login:
  assumes "username \<noteq> None \<or> password \<noteq> None \<Longrightarrow>
             docker_login e h username password (Some registry_url) = None"
  shows "fst (pull_image e registry_url image_name username password h) =
           (let login = (if username = None \<and> password = None then []
                         else [DockerLogin username password (Some registry_url)])
            in h @ login @ ImagesPull (registry_url @ ''/'' @ image_name) #
                 (case images_pull e (h @ login) (registry_url @ ''/'' @ image_name) of
                    Inl err \<Rightarrow> []
                  | Inr output \<Rightarrow> [Echo output]))"
  using assms
  by (auto simp: pull_image_def Let_def split: sum.splits option.splits)

theorem pull_image_login_witness:
  "docker_login sample_env [] (Some ''user'') None (Some ''registry.example.com'') = None \<and>
   fst (pull_image sample_env ''registry.example.com'' ''db:2'' (Some ''user'') None []) =
     [DockerLogin (Some ''user'') None (Some ''registry.example.com''),
      ImagesPull ''registry.example.com/db:2'', Echo ''registry.example.com/db:2'']"
  using pull_image_login [of "Some ''user''" None sample_env "[]" "''registry.example.com''"
      "''db:2''"]
  by (simp add: sample_env_def)

text \<open>A login that raises ends the method before the fetch.\<close>

lemma pull_image_raises_at_login:
  "username \<noteq> None \<or> password \<noteq> None \<Longrightarrow>
   docker_login e h username password (Some registry_url) = Some err \<Longrightarrow>
   pull_image e registry_url image_name username password h =
     (h @ [DockerLogin username password (Some registry_url)], Inl err)"
  by (auto simp: pull_image_def)

subsection \<open>Push\<close>

text \<open>
  C1. When the registry, the user name or the password is missing, \<^verbatim>\<open>push_image\<close>
  prints \<^verbatim>\<open>Pushing image:\<close> and returns: it neither logs in nor pushes, since what
  pushes is guarded by \<^verbatim>\<open>auth_config is not None\<close> and nothing stands in for the other
  case.
\<close>

theorem push_image_missing_credentials:
  "push_image e self img tg None username password h = (h @ [Echo ''Pushing image:''], Inr ()) \<and>
   push_image e self img tg registry None password h = (h @ [Echo ''Pushing image:''], Inr ()) \<and>
   push_image e self img tg registry username None h = (h @ [Echo ''Pushing image:''], Inr ())"
  by (cases registry; cases username; cases password;
      simp add: push_image_def push_if_auth_config_def)


subsection \<open>The constructor\<close>

text \<open>
  C7. For an invalid source URL the constructor prints the error in red and returns. The
  only event is that message, so neither credential path has run; the credential fields
  are \<^verbatim>\<open>None\<close>; and the object has no \<^verbatim>\<open>from_registry\<close>, so that \<^verbatim>\<open>copy_images\<close> on a
  non-empty image list raises \<open>AttributeError\<close> before any call to the runtime.
\<close>

theorem init_invalid_url:
  assumes "\<not> validators_url e from_reg"
  shows "(let self = \<lparr>cloud = cloud_kind, aws_region = region, aws_access_key_id = None,
                       aws_access_secret_key = None, cr_password = None, cr_username = None,
                       cr_url = None, show_log = show, to_registry = to_reg,
                       images_to_replicate = images, tagged_images = [],
                       from_registry = None\<rparr>
          in init e from_reg to_reg images region cloud_kind show h =
               (self, h @ [Secho ''The source registry does not have a valid URL!'' ''red''],
                None)
             \<and> (images \<noteq> [] \<longrightarrow>
                  (\<forall>h'. copy_images e self h' =
                          (self, h', Some (AttributeError ''from_registry'')))))"
  using assms
  by (cases images) (simp_all add: init_def copy_images_def)

theorem init_invalid_url_witness:
  "\<not> validators_url sample_env ''registry example'' \<and>
   init sample_env ''registry example'' ''myregistry.io'' [''db:2''] ''eu-west-1'' (Some ''aws'')
       False [] =
     (\<lparr>cloud = Some ''aws'', aws_region = ''eu-west-1'', aws_access_key_id = None,
       aws_access_secret_key = None, cr_password = None, cr_username = None,
       cr_url = None, show_log = False, to_registry = ''myregistry.io'',
       images_to_replicate = [''db:2''], tagged_images = [], from_registry = None\<rparr>,
      [Secho ''The source registry does not have a valid URL!'' ''red''], None) \<and>
   [''db:2''] \<noteq> [] \<and>
   copy_images sample_env
       \<lparr>cloud = Some ''aws'', aws_region = ''eu-west-1'', aws_access_key_id = None,
        aws_access_secret_key = None, cr_password = None, cr_username = None,
        cr_url = None, show_log = False, to_registry = ''myregistry.io'',
        images_to_replicate = [''db:2''], tagged_images = [], from_registry = None\<rparr> [] =
     (\<lparr>cloud = Some ''aws'', aws_region = ''eu-west-1'', aws_access_key_id = None,
       aws_access_secret_key = None, cr_password = None, cr_username = None,
       cr_url = None, show_log = False, to_registry = ''myregistry.io'',
       images_to_replicate = [''db:2''], tagged_images = [], from_registry = None\<rparr>,
      [], Some (AttributeError ''from_registry''))"
proof -
  have invalid: "\<not> validators_url sample_env ''registry example''"
    by (simp add: sample_env_def)
  from init_invalid_url [OF invalid, of "Some ''aws''" "''eu-west-1''" False "''myregistry.io''"
      "[''db:2'']" "[]"]
  show ?thesis
    using invalid by (simp add: Let_def)
qed

text \<open>The credential providers leave \<^verbatim>\<open>from_registry\<close> as it is.\<close>

lemma from_registry_read_aws_credentials:
  "from_registry (fst (read_aws_credentials e self h)) = from_registry self"
  by (simp add: read_aws_credentials_def Let_def split: sum.splits py_error.splits option.splits)

lemma from_registry_initialize_ecr:
  "from_registry (fst (initialize_ecr e self h)) = from_registry self"
  using from_registry_read_aws_credentials [of e self h]
  by (auto simp: initialize_ecr_def Let_def split: prod.splits sum.splits option.splits)

lemma from_registry_initialize_acr:
  "from_registry (fst (initialize_acr e self h)) = from_registry self"
  by (simp add: initialize_acr_def Let_def split: list.splits sum.splits)

lemma init_stores_replace:
  "validators_url e url \<Longrightarrow>
   from_registry (fst (init e url to_reg images region cloud_kind show h))
     = Some (replace ''https://'' [] url)"
  by (simp add: init_def Let_def from_registry_initialize_ecr from_registry_initialize_acr)

lemma replace_https_prefix_only:
  assumes "\<not> sublist ''https://'' (strip_https_prefix url)"
  shows "replace ''https://'' [] url = strip_https_prefix url"
proof (cases "prefix ''https://'' url")
  case True
  then obtain rest where url: "url = ''https://'' @ rest"
    by (auto simp: prefix_def)
  with assms have "\<not> sublist ''https://'' rest"
    by (simp add: strip_https_prefix_def)
  then have "replace ''https://'' [] rest = rest"
    by (intro replace_absent) simp_all
  moreover have "replace ''https://'' [] (''https://'' @ rest) = [] @ replace ''https://'' [] rest"
    by (rule replace_prefix) simp
  ultimately show ?thesis
    using url by (simp add: strip_https_prefix_def)
next
  case False
  with assms show ?thesis
    by (simp add: strip_https_prefix_def replace_absent)
qed

text \<open>
  C3, as amended. For a valid source URL the stored source registry is the input with
  every occurrence of \<^verbatim>\<open>https://\<close> removed, which is what \<^verbatim>\<open>str.replace\<close> does. When
  \<^verbatim>\<open>https://\<close> occurs nowhere but as the leading prefix, that is the input with the
  prefix stripped and nothing else changed.
\<close>

theorem init_from_registry:
  assumes "validators_url e url"
  shows "from_registry (fst (init e url to_reg images region cloud_kind show h))
           = Some (replace ''https://'' [] url)
         \<and> (\<not> sublist ''https://'' (strip_https_prefix url) \<longrightarrow>
              from_registry (fst (init e url to_reg images region cloud_kind show h))
                = Some (strip_https_prefix url))"
  using assms by (simp add: init_stores_replace replace_https_prefix_only)

theorem init_from_registry_witness:
  "validators_url sample_env ''https://registry.example.com'' \<and>
   \<not> sublist ''https://'' (strip_https_prefix ''https://registry.example.com'') \<and>
   from_registry (fst (init sample_env ''https://registry.example.com'' ''myregistry.io''
                         [''db:2''] ''eu-west-1'' (Some ''aws'') False []))
     = Some ''registry.example.com''"
proof -
  have valid: "validators_url sample_env ''https://registry.example.com''"
    by (simp add: sample_env_def)
  have strip: "strip_https_prefix ''https://registry.example.com'' = ''registry.example.com''"
    by (simp add: strip_https_prefix_def)
  have absent: "\<not> sublist ''https://'' (strip_https_prefix ''https://registry.example.com'')"
    unfolding strip by (simp add: sublist_Cons_right)
  from init_from_registry [OF valid, of "''myregistry.io''" "[''db:2'']" "''eu-west-1''"
      "Some ''aws''" False "[]"]
  show ?thesis
    using valid absent strip by simp
qed

text \<open>
  C3 as stated fails for a URL that contains \<^verbatim>\<open>https://\<close> a second time, here in its
  query: the inner occurrence is removed as well.
\<close>

theorem init_from_registry_counterexample:
  "validators_url sample_env ''https://example.com/?next=https://other.org'' \<and>
   from_registry (fst (init sample_env ''https://example.com/?next=https://other.org''
                         ''myregistry.io'' [] ''eu-west-1'' None False []))
     = Some ''example.com/?next=other.org'' \<and>
   strip_https_prefix ''https://example.com/?next=https://other.org''
     = ''example.com/?next=https://other.org'' \<and>
   from_registry (fst (init sample_env ''https://example.com/?next=https://other.org''
                         ''myregistry.io'' [] ''eu-west-1'' None False []))
     \<noteq> Some (strip_https_prefix ''https://example.com/?next=https://other.org'')"
  by (simp add: init_def sample_env_def strip_https_prefix_def)

subsection \<open>The AWS credentials file\<close>

text \<open>
  C8, as amended. With cloud kind \<^verbatim>\<open>aws\<close>, when reading the credentials file raises,
  the access key and the secret key stay \<^verbatim>\<open>None\<close>. If what it raises is
  \<^verbatim>\<open>ParsingError\<close>, the constructor prints the error in red and goes on: it asks ECR for
  a token with both keys unset, and then raises exactly what that request or the decoding
  of its answer raises, and nothing when they succeed. Any other exception of reading the
  file leaves the constructor at once.
\<close>

theorem init_aws_parsing_error:
  assumes "validators_url e url"
    and "config_read e (h @ [EchoImages images]) = Inl err"
  shows "(case init e url to_reg images region (Some ''aws'') verbose h of
            (self, h', raised) \<Rightarrow>
              aws_access_key_id self = None \<and> aws_access_secret_key self = None \<and>
              (case err of
                 ParsingError msg \<Rightarrow>
                   (let reported = h @ [EchoImages images, ConfigRead, Secho msg ''red''] in
                    h' = reported @ [EcrGetAuthorizationToken None None region] \<and>
                    raised =
                      (case ecr_get_authorization_token e reported None None region of
                         Inl err' \<Rightarrow> Some err'
                       | Inr ecr_credentials \<Rightarrow>
                           (case b64decode e ecr_credentials of
                              Inl err' \<Rightarrow> Some err'
                            | Inr decoded \<Rightarrow>
                                (case utf8_decode e (replace ''AWS:'' [] decoded) of
                                   Inl err' \<Rightarrow> Some err'
                                 | Inr password \<Rightarrow> None))))
               | _ \<Rightarrow> h' = h @ [EchoImages images, ConfigRead] \<and> raised = Some err))"
  using assms
  by (cases err)
     (simp_all add: init_def initialize_ecr_def read_aws_credentials_def Let_def
        split: sum.splits)

theorem init_aws_parsing_error_witness:
  "validators_url (sample_env\<lparr>config_read := \<lambda>h. Inl (ParsingError ''no section header'')\<rparr>)
     ''https://registry.example.com'' \<and>
   config_read (sample_env\<lparr>config_read := \<lambda>h. Inl (ParsingError ''no section header'')\<rparr>)
     ([] @ [EchoImages [''db:2'']]) = Inl (ParsingError ''no section header'') \<and>
   (case init (sample_env\<lparr>config_read := \<lambda>h. Inl (ParsingError ''no section header'')\<rparr>)
           ''https://registry.example.com'' ''myregistry.io'' [''db:2''] ''eu-west-1''
           (Some ''aws'') False [] of
      (self, h', raised) \<Rightarrow>
        aws_access_key_id self = None \<and> aws_access_secret_key self = None \<and>
        h' = [EchoImages [''db:2''], ConfigRead, Secho ''no section header'' ''red'',
              EcrGetAuthorizationToken None None ''eu-west-1''] \<and>
        raised = None)"
proof -
  let ?e = "sample_env\<lparr>config_read := \<lambda>h. Inl (ParsingError ''no section header'')\<rparr>"
  have valid: "validators_url ?e ''https://registry.example.com''"
    by (simp add: sample_env_def)
  have unreadable: "config_read ?e ([] @ [EchoImages [''db:2'']])
                      = Inl (ParsingError ''no section header'')"
    by simp
  have answers: "ecr_get_authorization_token sample_env h None None region = Inr ''QVdTOnRva2Vu''"
    "b64decode sample_env ''QVdTOnRva2Vu'' = Inr ''AWS:token''"
    "utf8_decode sample_env s = Inr s" for h region s
    by (simp_all add: sample_env_def)
  from init_aws_parsing_error [OF valid unreadable, where to_reg = "''myregistry.io''"
      and region = "''eu-west-1''" and verbose = False]
  show ?thesis
    using valid unreadable by (simp add: answers Let_def split_def)
qed

text \<open>
  C8 as stated says that the constructor does not raise when parsing the file fails. It
  does in both of these runs. In the first the file is malformed and the error is caught,
  but the request for a token, made without keys, raises. In the second the file has a
  section twice, which is not a \<^verbatim>\<open>ParsingError\<close>, and the exception is not caught.
\<close>

theorem init_aws_parsing_error_counterexample:
  "init (sample_env\<lparr>config_read := \<lambda>h. Inl (ParsingError ''no section header''),
                     ecr_get_authorization_token :=
                       \<lambda>h key_id secret region. Inl (ExternalError ''ConfigParseError'')\<rparr>)
       ''https://registry.example.com'' ''myregistry.io'' [''db:2''] ''eu-west-1''
       (Some ''aws'') False [] =
     (\<lparr>cloud = Some ''aws'', aws_region = ''eu-west-1'', aws_access_key_id = None,
       aws_access_secret_key = None, cr_password = None, cr_username = None,
       cr_url = None, show_log = False, to_registry = ''myregistry.io'',
       images_to_replicate = [''db:2''], tagged_images = [],
       from_registry = Some ''registry.example.com''\<rparr>,
      [EchoImages [''db:2''], ConfigRead, Secho ''no section header'' ''red'',
       EcrGetAuthorizationToken None None ''eu-west-1''],
      Some (ExternalError ''ConfigParseError'')) \<and>
   init (sample_env\<lparr>config_read := \<lambda>h. Inl (DuplicateSectionError ''default'')\<rparr>)
       ''https://registry.example.com'' ''myregistry.io'' [''db:2''] ''eu-west-1''
       (Some ''aws'') False [] =
     (\<lparr>cloud = Some ''aws'', aws_region = ''eu-west-1'', aws_access_key_id = None,
       aws_access_secret_key = None, cr_password = None, cr_username = None,
       cr_url = None, show_log = False, to_registry = ''myregistry.io'',
       images_to_replicate = [''db:2''], tagged_images = [],
       from_registry = Some ''registry.example.com''\<rparr>,
      [EchoImages [''db:2''], ConfigRead],
      Some (DuplicateSectionError ''default''))"
  by (simp add: init_def initialize_ecr_def read_aws_credentials_def sample_env_def Let_def)

subsection \<open>Credentials during a run\<close>















subsection \<open>A tag that fails\<close>

text \<open>Images copied without an exception can be taken off the front of the list.\<close>

lemma copy_loop_append:
  "copy_loop e imgs self h = (self1, h1, None) \<Longrightarrow>
   copy_loop e (imgs @ rest) self h = copy_loop e rest self1 h1"
  by (induction imgs arbitrary: self h)
     (auto simp: Let_def split: option.splits prod.splits sum.splits)

text \<open>
  C2, as amended. When, for some image of the list, the runtime reports that tagging
  failed, \<^verbatim>\<open>tag_image\<close> returns \<^verbatim>\<open>None\<close>. \<^verbatim>\<open>copy_images\<close> does not check it: it
  appends \<^verbatim>\<open>None\<close> to \<^verbatim>\<open>tagged_images\<close> and then raises \<open>TypeError\<close> where it
  subscripts the result for the arguments of the push. The history ends with the call that
  tagged: nothing is pushed for this image, and the images after it are not touched.
\<close>

theorem copy_images_tag_failure:
  assumes "images_to_replicate self = before @ img # after"
    and "copy_loop e before self h = (self1, h1, None)"
    and "from_registry self1 = Some src"
    and "pull_image e src img None None h1 = (h2, Inr ())"
    and "images_get e h2 (src @ ''/'' @ img) = Inr local"
    and "image_tag e (h2 @ [ImagesGet (src @ ''/'' @ img)]) local
           (if cloud self1 = Some ''aws'' then to_registry self1
            else to_registry self1 @ ''/'' @ img)
           (if cloud self1 = Some ''aws'' then map hyphenate img else ''latest'') = Inr False"
  shows "(let h3 = h2 @ [ImagesGet (src @ ''/'' @ img),
                         ImageTag local
                           (if cloud self1 = Some ''aws'' then to_registry self1
                            else to_registry self1 @ ''/'' @ img)
                           (if cloud self1 = Some ''aws'' then map hyphenate img
                            else ''latest'')]
          in tag_image e self1 img src (to_registry self1) h2 = (h3, Inr None) \<and>
             copy_images e self h =
               (self1\<lparr>tagged_images := tagged_images self1 @ [None]\<rparr>, h3, Some TypeError))"
proof -
  let ?h3 = "h2 @ [ImagesGet (src @ ''/'' @ img),
                   ImageTag local
                     (if cloud self1 = Some ''aws'' then to_registry self1
                      else to_registry self1 @ ''/'' @ img)
                     (if cloud self1 = Some ''aws'' then map hyphenate img else ''latest'')]"
  from assms(5,6) have falsy: "tag_image e self1 img src (to_registry self1) h2 = (?h3, Inr None)"
    by (cases "cloud self1 = Some ''aws''")
       (simp_all add: tag_image_def replace_slash_colon Let_def)
  with assms(3,4) have "copy_loop e (img # after) self1 h1 =
      (self1\<lparr>tagged_images := tagged_images self1 @ [None]\<rparr>, ?h3, Some TypeError)"
    by simp
  with copy_loop_append [OF assms(2), of "img # after"] assms(1)
  have "copy_images e self h =
      (self1\<lparr>tagged_images := tagged_images self1 @ [None]\<rparr>, ?h3, Some TypeError)"
    by (simp add: copy_images_def)
  with falsy show ?thesis
    by (simp add: Let_def)
qed

theorem copy_images_tag_failure_witness:
  "images_to_replicate (sample_self (Some ''aws'')) = [''app/service:v1''] @ ''db:2'' # [] \<and>
   copy_loop second_tag_fails_env [''app/service:v1''] (sample_self (Some ''aws'')) [] =
     (sample_self (Some ''aws'')
        \<lparr>tagged_images := [Some \<lparr>repository = ''myregistry.io'', tag = ''app-service-v1''\<rparr>]\<rparr>,
      [ImagesPull ''registry.example.com/app/service:v1'',
       Echo ''registry.example.com/app/service:v1'',
       ImagesGet ''registry.example.com/app/service:v1'',
       ImageTag ''registry.example.com/app/service:v1'' ''myregistry.io'' ''app-service-v1'',
       Echo ''Pushing image:'',
       DockerLogin (Some ''AWS'') (Some ''token'') (Some ''myregistry.io''),
       ImagesPush ''myregistry.io'' ''app-service-v1'' (Some (''AWS'', ''token'')),
       Echo ''pushed''],
      None) \<and>
   tag_image second_tag_fails_env
       (sample_self (Some ''aws'')
          \<lparr>tagged_images := [Some \<lparr>repository = ''myregistry.io'', tag = ''app-service-v1''\<rparr>]\<rparr>)
       ''db:2'' ''registry.example.com'' ''myregistry.io''
       [ImagesPull ''registry.example.com/app/service:v1'',
        Echo ''registry.example.com/app/service:v1'',
        ImagesGet ''registry.example.com/app/service:v1'',
        ImageTag ''registry.example.com/app/service:v1'' ''myregistry.io'' ''app-service-v1'',
        Echo ''Pushing image:'',
        DockerLogin (Some ''AWS'') (Some ''token'') (Some ''myregistry.io''),
        ImagesPush ''myregistry.io'' ''app-service-v1'' (Some (''AWS'', ''token'')),
        Echo ''pushed'',
        ImagesPull ''registry.example.com/db:2'',
        Echo ''registry.example.com/db:2''] =
     ([ImagesPull ''registry.example.com/app/service:v1'',
       Echo ''registry.example.com/app/service:v1'',
       ImagesGet ''registry.example.com/app/service:v1'',
       ImageTag ''registry.example.com/app/service:v1'' ''myregistry.io'' ''app-service-v1'',
       Echo ''Pushing image:'',
       DockerLogin (Some ''AWS'') (Some ''token'') (Some ''myregistry.io''),
       ImagesPush ''myregistry.io'' ''app-service-v1'' (Some (''AWS'', ''token'')),
       Echo ''pushed'',
       ImagesPull ''registry.example.com/db:2'',
       Echo ''registry.example.com/db:2'',
       ImagesGet ''registry.example.com/db:2'',
       ImageTag ''registry.example.com/db:2'' ''myregistry.io'' ''db-2''],
      Inr None) \<and>
   copy_images second_tag_fails_env (sample_self (Some ''aws'')) [] =
     (sample_self (Some ''aws'')
        \<lparr>tagged_images := [Some \<lparr>repository = ''myregistry.io'', tag = ''app-service-v1''\<rparr>,
                           None]\<rparr>,
      [ImagesPull ''registry.example.com/app/service:v1'',
       Echo ''registry.example.com/app/service:v1'',
       ImagesGet ''registry.example.com/app/service:v1'',
       ImageTag ''registry.example.com/app/service:v1'' ''myregistry.io'' ''app-service-v1'',
       Echo ''Pushing image:'',
       DockerLogin (Some ''AWS'') (Some ''token'') (Some ''myregistry.io''),
       ImagesPush ''myregistry.io'' ''app-service-v1'' (Some (''AWS'', ''token'')),
       Echo ''pushed'',
       ImagesPull ''registry.example.com/db:2'',
       Echo ''registry.example.com/db:2'',
       ImagesGet ''registry.example.com/db:2'',
       ImageTag ''registry.example.com/db:2'' ''myregistry.io'' ''db-2''],
      Some TypeError)"
proof -
  let ?e = second_tag_fails_env
  let ?self = "sample_self (Some ''aws'')"
  let ?self1 = "?self\<lparr>tagged_images :=
                   [Some \<lparr>repository = ''myregistry.io'', tag = ''app-service-v1''\<rparr>]\<rparr>"
  let ?h1 = "[ImagesPull ''registry.example.com/app/service:v1'',
       Echo ''registry.example.com/app/service:v1'',
       ImagesGet ''registry.example.com/app/service:v1'',
       ImageTag ''registry.example.com/app/service:v1'' ''myregistry.io'' ''app-service-v1'',
       Echo ''Pushing image:'',
       DockerLogin (Some ''AWS'') (Some ''token'') (Some ''myregistry.io''),
       ImagesPush ''myregistry.io'' ''app-service-v1'' (Some (''AWS'', ''token'')),
       Echo ''pushed'']"
  let ?h2 = "?h1 @ [ImagesPull ''registry.example.com/db:2'', Echo ''registry.example.com/db:2'']"
  have images: "images_to_replicate ?self = [''app/service:v1''] @ ''db:2'' # []"
    by (simp add: sample_self_def)
  have first: "copy_loop ?e [''app/service:v1''] ?self [] = (?self1, ?h1, None)"
    by (simp add: second_tag_fails_env_def sample_env_def sample_self_def pull_image_def
        tag_image_def push_image_def push_if_auth_config_def Let_def)
  have source: "from_registry ?self1 = Some ''registry.example.com''"
    by (simp add: sample_self_def)
  have pulled: "pull_image ?e ''registry.example.com'' ''db:2'' None None ?h1 = (?h2, Inr ())"
    by (simp add: second_tag_fails_env_def sample_env_def pull_image_def)
  have found: "images_get ?e ?h2 (''registry.example.com'' @ ''/'' @ ''db:2'')
                 = Inr ''registry.example.com/db:2''"
    by (simp add: second_tag_fails_env_def sample_env_def)
  have fails: "image_tag ?e (?h2 @ [ImagesGet (''registry.example.com'' @ ''/'' @ ''db:2'')])
           ''registry.example.com/db:2''
           (if cloud ?self1 = Some ''aws'' then to_registry ?self1
            else to_registry ?self1 @ ''/'' @ ''db:2'')
           (if cloud ?self1 = Some ''aws'' then map hyphenate ''db:2'' else ''latest'')
         = Inr False"
    by (simp add: second_tag_fails_env_def sample_env_def sample_self_def hyphenate_def)
  from copy_images_tag_failure [OF images first source pulled found fails]
  show ?thesis
    using images first by (simp add: Let_def sample_self_def hyphenate_def)
qed

text \<open>
  C2 as stated says that the run goes on to the push. In this run of one image it does
  not: \<^verbatim>\<open>push_image\<close> is never entered, and the run ends with \<open>TypeError\<close>.
\<close>

theorem copy_images_tag_failure_counterexample:
  "tag_image (sample_env\<lparr>image_tag := \<lambda>h img target tg. Inr False\<rparr>)
       (sample_self (Some ''aws'')\<lparr>images_to_replicate := [''db:2'']\<rparr>)
       ''db:2'' ''registry.example.com'' ''myregistry.io''
       [ImagesPull ''registry.example.com/db:2'', Echo ''registry.example.com/db:2''] =
     ([ImagesPull ''registry.example.com/db:2'', Echo ''registry.example.com/db:2'',
       ImagesGet ''registry.example.com/db:2'',
       ImageTag ''registry.example.com/db:2'' ''myregistry.io'' ''db-2''],
      Inr None) \<and>
   copy_images (sample_env\<lparr>image_tag := \<lambda>h img target tg. Inr False\<rparr>)
       (sample_self (Some ''aws'')\<lparr>images_to_replicate := [''db:2'']\<rparr>) [] =
     (sample_self (Some ''aws'')\<lparr>images_to_replicate := [''db:2''], tagged_images := [None]\<rparr>,
      [ImagesPull ''registry.example.com/db:2'', Echo ''registry.example.com/db:2'',
       ImagesGet ''registry.example.com/db:2'',
       ImageTag ''registry.example.com/db:2'' ''myregistry.io'' ''db-2''],
      Some TypeError) \<and>
   Echo ''Pushing image:'' \<notin>
     set (fst (snd (copy_images (sample_env\<lparr>image_tag := \<lambda>h img target tg. Inr False\<rparr>)
                      (sample_self (Some ''aws'')\<lparr>images_to_replicate := [''db:2'']\<rparr>) []))) \<and>
   ImagesPush ''myregistry.io'' ''db-2'' (Some (''AWS'', ''token'')) \<notin>
     set (fst (snd (copy_images (sample_env\<lparr>image_tag := \<lambda>h img target tg. Inr False\<rparr>)
                      (sample_self (Some ''aws'')\<lparr>images_to_replicate := [''db:2'']\<rparr>) [])))"
  by (simp add: copy_images_def sample_env_def sample_self_def pull_image_def tag_image_def
      Let_def)

end
